theory Spec2Isabelle
  imports Complex_Main
begin

section \<open>Errors and results\<close>

text \<open>
  Every place where the Python of \<^verbatim>\<open>nets/nn.py\<close> can raise is a branch of the model.
  \<^item> \<open>IndexError\<close>: a list or tuple index out of range (\<^verbatim>\<open>width[5]\<close>, \<^verbatim>\<open>ch[0]\<close>,
    \<^verbatim>\<open>self.box[2]\<close>).
  \<^item> \<open>ZeroDivisionError\<close>: \<^verbatim>\<open>256 / x.shape[-2]\<close> with a height of zero.
  \<^item> \<open>ShapeError\<close>: the tensor library refuses the shapes it is given (a channel count
    that is not the layer's, a kernel larger than the padded input, a concatenation of
    tensors of different spatial size).
  \<^item> \<open>BackendError\<close>: the tensor library has no kernel for the representation it is
    given (a real-valued layer applied to a quantized tensor, \<^verbatim>\<open>x + y\<close> on a quantized
    operand, a second quantization of a quantized tensor).
\<close>

datatype error = IndexError | ZeroDivisionError | ShapeError | BackendError

definition bind_r :: "error + 'a \<Rightarrow> ('a \<Rightarrow> error + 'b) \<Rightarrow> error + 'b" where
  "bind_r m f = (case m of Inl e \<Rightarrow> Inl e | Inr v \<Rightarrow> f v)"

definition py_nth :: "'a list \<Rightarrow> nat \<Rightarrow> error + 'a" where
  "py_nth xs i = (if i < length xs then Inr (xs ! i) else Inl IndexError)"

section \<open>Tensors\<close>

text \<open>
  The numeric content of a tensor is computed by the tensor library. A tensor is
  modelled by what the architecture decides: its shape \<open>(N, C, H, W)\<close> and whether
  it is real-valued or quantized; a quantized tensor carries its scale and its
  zero-point (per-tensor affine quantization). Sizes and channel counts are naturals:
  the library refuses a negative size.
\<close>

datatype qinfo = RealValued | Quantized real int

record tensor =
  t_batch :: nat
  t_chans :: nat
  t_height :: nat
  t_width :: nat
  t_quant :: qinfo

fun quantized_q :: "qinfo \<Rightarrow> bool" where
  "quantized_q RealValued = False"
| "quantized_q (Quantized s z) = True"

definition is_quantized :: "tensor \<Rightarrow> bool" where
  "is_quantized x = quantized_q (t_quant x)"

definition zeros :: "nat \<Rightarrow> nat \<Rightarrow> nat \<Rightarrow> nat \<Rightarrow> tensor" where
  "zeros n c h w =
     \<lparr>t_batch = n, t_chans = c, t_height = h, t_width = w, t_quant = RealValued\<rparr>"

section \<open>The tensor library's operators, on shapes and quantization tags\<close>

text \<open>
  The operators of the tensor library that \<^verbatim>\<open>nets/nn.py\<close> calls, as the library
  documents them: what they do to the shape and to the quantization tag, and when they
  refuse their operands. The weights, the running statistics of the normalisation and
  its training switch carry no shape and are left out.

  A library layer is built real-valued (\<open>FloatModule\<close>). The library's conversion
  replaces it by a quantized layer that owns an output scale and zero-point
  (\<open>QuantizedModule\<close>); nothing in \<^verbatim>\<open>nets/nn.py\<close> builds one, but the quantized branches
  of the code are written for them.
\<close>

datatype module_mode = FloatModule | QuantizedModule real int

fun run_mode :: "module_mode \<Rightarrow> tensor \<Rightarrow> error + tensor" where
  "run_mode FloatModule x =
     (if is_quantized x then Inl BackendError else Inr x)"
| "run_mode (QuantizedModule s z) x =
     (if is_quantized x then Inr (x\<lparr>t_quant := Quantized s z\<rparr>) else Inl BackendError)"

text \<open>Output size of a convolution or pooling window along one axis (floor mode).\<close>

definition window_out :: "nat \<Rightarrow> nat \<Rightarrow> nat \<Rightarrow> nat \<Rightarrow> error + nat" where
  "window_out h k s p =
     (if k = 0 \<or> s = 0 \<or> h + 2 * p < k then Inl ShapeError
      else Inr ((h + 2 * p - k) div s + 1))"

record Conv2d =
  in_channels :: nat
  out_channels :: nat
  kernel_size :: nat
  conv_stride :: nat
  padding :: nat
  bias :: bool
  conv_mode :: module_mode

definition Conv2d_forward :: "Conv2d \<Rightarrow> tensor \<Rightarrow> error + tensor" where
  "Conv2d_forward c x =
     bind_r (run_mode (conv_mode c) x) (\<lambda>y.
       if t_chans x \<noteq> in_channels c then Inl ShapeError
       else
         bind_r (window_out (t_height x) (kernel_size c) (conv_stride c) (padding c)) (\<lambda>h.
         bind_r (window_out (t_width x) (kernel_size c) (conv_stride c) (padding c)) (\<lambda>w.
           Inr (y\<lparr>t_chans := out_channels c, t_height := h, t_width := w\<rparr>))))"

record BatchNorm2d =
  num_features :: nat
  eps :: real
  momentum :: real
  norm_mode :: module_mode

definition BatchNorm2d_forward :: "BatchNorm2d \<Rightarrow> tensor \<Rightarrow> error + tensor" where
  "BatchNorm2d_forward b x =
     bind_r (run_mode (norm_mode b) x) (\<lambda>y.
       if t_chans x \<noteq> num_features b then Inl ShapeError else Inr y)"

record MaxPool2d =
  pool_kernel :: nat
  pool_stride :: nat
  pool_padding :: nat

definition MaxPool2d_forward :: "MaxPool2d \<Rightarrow> tensor \<Rightarrow> error + tensor" where
  "MaxPool2d_forward p x =
     (if pool_kernel p div 2 < pool_padding p then Inl ShapeError
      else
        bind_r (window_out (t_height x) (pool_kernel p) (pool_stride p) (pool_padding p)) (\<lambda>h.
        bind_r (window_out (t_width x) (pool_kernel p) (pool_stride p) (pool_padding p)) (\<lambda>w.
          Inr (x\<lparr>t_height := h, t_width := w\<rparr>))))"

record Upsample =
  scale_factor :: nat

definition Upsample_forward :: "Upsample \<Rightarrow> tensor \<Rightarrow> tensor" where
  "Upsample_forward u x =
     x\<lparr>t_height := t_height x * scale_factor u, t_width := t_width x * scale_factor u\<rparr>"

text \<open>Broadcasting of one axis of two operands of an elementwise operator.\<close>

definition broadcast_dim :: "nat \<Rightarrow> nat \<Rightarrow> error + nat" where
  "broadcast_dim a b =
     (if a = b then Inr a else if a = 1 then Inr b else if b = 1 then Inr a
      else Inl ShapeError)"

definition broadcast :: "tensor \<Rightarrow> tensor \<Rightarrow> qinfo \<Rightarrow> error + tensor" where
  "broadcast x y q =
     bind_r (broadcast_dim (t_batch x) (t_batch y)) (\<lambda>n.
     bind_r (broadcast_dim (t_chans x) (t_chans y)) (\<lambda>c.
     bind_r (broadcast_dim (t_height x) (t_height y)) (\<lambda>h.
     bind_r (broadcast_dim (t_width x) (t_width y)) (\<lambda>w.
       Inr \<lparr>t_batch = n, t_chans = c, t_height = h, t_width = w, t_quant = q\<rparr>))))"

text \<open>\<^verbatim>\<open>x * y\<close> and \<^verbatim>\<open>x + y\<close>: the real-valued elementwise operators.\<close>

definition mul_t :: "tensor \<Rightarrow> tensor \<Rightarrow> error + tensor" where
  "mul_t x y =
     (if is_quantized x \<or> is_quantized y then Inl BackendError
      else broadcast x y RealValued)"

definition add_t :: "tensor \<Rightarrow> tensor \<Rightarrow> error + tensor" where
  "add_t x y =
     (if is_quantized x \<or> is_quantized y then Inl BackendError
      else broadcast x y RealValued)"

text \<open>
  \<^verbatim>\<open>torch.ops.quantized.mul\<close> and \<^verbatim>\<open>torch.ops.quantized.add\<close>: both operands quantized, the
  result quantized with the scale and zero-point passed in.
\<close>

definition quantized_mul :: "tensor \<Rightarrow> tensor \<Rightarrow> real \<Rightarrow> int \<Rightarrow> error + tensor" where
  "quantized_mul x y scale zero_point =
     (if is_quantized x \<and> is_quantized y then broadcast x y (Quantized scale zero_point)
      else Inl BackendError)"

definition quantized_add :: "tensor \<Rightarrow> tensor \<Rightarrow> real \<Rightarrow> int \<Rightarrow> error + tensor" where
  "quantized_add x y scale zero_point =
     (if is_quantized x \<and> is_quantized y then broadcast x y (Quantized scale zero_point)
      else Inl BackendError)"

text \<open>
  The sigmoid keeps the shape; on a quantized tensor the library's kernel returns a
  quantized tensor with the fixed output scale \<open>1/256\<close> and zero-point \<open>0\<close>. The
  rectifier keeps shape and quantization.
\<close>

definition sigmoid_t :: "tensor \<Rightarrow> tensor" where
  "sigmoid_t x =
     (case t_quant x of
        RealValued \<Rightarrow> x
      | Quantized s z \<Rightarrow> x\<lparr>t_quant := Quantized (1 / 256) 0\<rparr>)"

definition relu_t :: "tensor \<Rightarrow> tensor" where
  "relu_t x = x"

definition dequantize :: "tensor \<Rightarrow> tensor" where
  "dequantize x = x\<lparr>t_quant := RealValued\<rparr>"

definition quantize_per_tensor :: "tensor \<Rightarrow> real \<Rightarrow> int \<Rightarrow> error + tensor" where
  "quantize_per_tensor x scale zero_point =
     (if is_quantized x then Inl BackendError
      else Inr (x\<lparr>t_quant := Quantized scale zero_point\<rparr>))"

text \<open>
  \<^verbatim>\<open>x.chunk(2, 1)\<close>: pieces of \<open>\<lceil>C/2\<rceil>\<close> channels, the last one smaller when \<open>C\<close> is
  odd; a single piece when \<open>C = 1\<close>; two empty pieces when \<open>C = 0\<close>.
\<close>

definition chunk2 :: "tensor \<Rightarrow> tensor list" where
  "chunk2 x =
     (let c = t_chans x; sz = (c + 1) div 2 in
      if c = 0 then [x, x]
      else if c - sz = 0 then [x\<lparr>t_chans := sz\<rparr>]
      else [x\<lparr>t_chans := sz\<rparr>, x\<lparr>t_chans := c - sz\<rparr>])"

text \<open>
  \<^verbatim>\<open>torch.cat(xs, 1)\<close>: the operands agree in representation and in every axis but the
  channels; the result has the sum of the channels and, when quantized, the first
  operand's scale and zero-point.
\<close>

definition same_outer :: "tensor \<Rightarrow> tensor \<Rightarrow> bool" where
  "same_outer x y =
     (t_batch x = t_batch y \<and> t_height x = t_height y \<and> t_width x = t_width y)"

definition same_repr :: "tensor \<Rightarrow> tensor \<Rightarrow> bool" where
  "same_repr x y = (is_quantized x = is_quantized y)"

definition cat_t :: "tensor list \<Rightarrow> error + tensor" where
  "cat_t xs =
     (case xs of
        [] \<Rightarrow> Inl ShapeError
      | x # rest \<Rightarrow>
          if \<not> list_all (same_repr x) rest then Inl BackendError
          else if \<not> list_all (same_outer x) rest then Inl ShapeError
          else Inr (x\<lparr>t_chans := sum_list (map t_chans xs)\<rparr>))"

section \<open>SiLU (the activation gate)\<close>

text \<open>
  \<^verbatim>\<open>SiLU.forward\<close>. The test \<^verbatim>\<open>x.is_quantized\<close> and the reads \<^verbatim>\<open>x.q_scale()\<close>,
  \<^verbatim>\<open>x.q_zero_point()\<close> are one match on the tensor's tag. The module's only attribute is
  the stateless sigmoid.
\<close>

definition SiLU_forward :: "tensor \<Rightarrow> error + tensor" where
  "SiLU_forward x =
     (case t_quant x of
        Quantized s z \<Rightarrow> quantized_mul x (sigmoid_t x) s z
      | RealValued \<Rightarrow> mul_t (relu_t x) (sigmoid_t x))"




section \<open>Conv (the convolution block)\<close>

record Conv =
  conv :: Conv2d
  norm :: BatchNorm2d

definition Conv_init :: "nat \<Rightarrow> nat \<Rightarrow> nat \<Rightarrow> nat \<Rightarrow> Conv" where
  "Conv_init in_ch out_ch k s =
     \<lparr>conv = \<lparr>in_channels = in_ch, out_channels = out_ch, kernel_size = k,
               conv_stride = s, padding = (k - 1) div 2, bias = False,
               conv_mode = FloatModule\<rparr>,
      norm = \<lparr>num_features = out_ch, eps = 1 / 1000, momentum = 3 / 100,
               norm_mode = FloatModule\<rparr>\<rparr>"

definition Conv_forward :: "Conv \<Rightarrow> tensor \<Rightarrow> error + tensor" where
  "Conv_forward m x =
     bind_r (Conv2d_forward (conv m) x) (\<lambda>y.
     bind_r (BatchNorm2d_forward (norm m) y) SiLU_forward)"

section \<open>Residual\<close>

record Residual =
  add_m :: bool
  res_conv1 :: Conv
  res_conv2 :: Conv

definition Residual_init :: "nat \<Rightarrow> bool \<Rightarrow> Residual" where
  "Residual_init ch add =
     \<lparr>add_m = add, res_conv1 = Conv_init ch ch 3 1, res_conv2 = Conv_init ch ch 3 1\<rparr>"

definition Residual_forward :: "Residual \<Rightarrow> tensor \<Rightarrow> error + tensor" where
  "Residual_forward m x =
     bind_r (Conv_forward (res_conv1 m) x) (\<lambda>y1.
     bind_r (Conv_forward (res_conv2 m) y1) (\<lambda>y.
       if add_m m then
         (case t_quant x of
            Quantized s z \<Rightarrow>
              if is_quantized y then quantized_add x y s z else add_t x y
          | RealValued \<Rightarrow> add_t x y)
       else Inr y))"

section \<open>CSP (the cross-stage-partial group)\<close>

record CSP =
  csp_conv1 :: Conv
  csp_conv2 :: Conv
  res_m :: "Residual list"

definition CSP_init :: "nat \<Rightarrow> nat \<Rightarrow> nat \<Rightarrow> bool \<Rightarrow> CSP" where
  "CSP_init in_ch out_ch n add =
     \<lparr>csp_conv1 = Conv_init in_ch out_ch 1 1,
      csp_conv2 = Conv_init ((2 + n) * out_ch div 2) out_ch 1 1,
      res_m = replicate n (Residual_init (out_ch div 2) add)\<rparr>"

text \<open>
  The loop \<^verbatim>\<open>for m in self.res_m: y_list.append(m(y_list[-1]))\<close>, on the list built
  so far.
\<close>

fun CSP_chain :: "Residual list \<Rightarrow> tensor list \<Rightarrow> error + tensor list" where
  "CSP_chain [] y_list = Inr y_list"
| "CSP_chain (m # ms) y_list =
     (if y_list = [] then Inl IndexError
      else bind_r (Residual_forward m (last y_list)) (\<lambda>y. CSP_chain ms (y_list @ [y])))"

text \<open>Lines 55 to 57 of \<^verbatim>\<open>CSP.forward\<close>: the list that is concatenated.\<close>

definition CSP_y_list :: "CSP \<Rightarrow> tensor \<Rightarrow> error + tensor list" where
  "CSP_y_list m x =
     bind_r (Conv_forward (csp_conv1 m) x) (\<lambda>y. CSP_chain (res_m m) (chunk2 y))"

text \<open>
  Lines 60 to 67 of \<^verbatim>\<open>CSP.forward\<close>: the concatenation, through a dequantize and
  requantize round trip when a member of the list is quantized.
\<close>

definition dequantized_list :: "tensor list \<Rightarrow> tensor list" where
  "dequantized_list y_list = map (\<lambda>t. if is_quantized t then dequantize t else t) y_list"

definition CSP_y_out :: "tensor \<Rightarrow> tensor list \<Rightarrow> error + tensor" where
  "CSP_y_out x y_list =
     (if list_ex is_quantized y_list then
        bind_r (cat_t (dequantized_list y_list)) (\<lambda>y_cat.
          case t_quant x of
            Quantized s z \<Rightarrow> quantize_per_tensor y_cat s z
          | RealValued \<Rightarrow> quantize_per_tensor y_cat 1 0)
      else cat_t y_list)"

definition CSP_forward :: "CSP \<Rightarrow> tensor \<Rightarrow> error + tensor" where
  "CSP_forward m x =
     bind_r (CSP_y_list m x) (\<lambda>y_list.
     bind_r (CSP_y_out x y_list) (Conv_forward (csp_conv2 m)))"

section \<open>SPP\<close>

record SPP =
  spp_conv1 :: Conv
  spp_conv2 :: Conv
  spp_res_m :: MaxPool2d

definition SPP_init :: "nat \<Rightarrow> nat \<Rightarrow> nat \<Rightarrow> SPP" where
  "SPP_init in_ch out_ch k =
     \<lparr>spp_conv1 = Conv_init in_ch (in_ch div 2) 1 1,
      spp_conv2 = Conv_init (in_ch * 2) out_ch 1 1,
      spp_res_m = \<lparr>pool_kernel = k, pool_stride = 1, pool_padding = k div 2\<rparr>\<rparr>"

definition SPP_forward :: "SPP \<Rightarrow> tensor \<Rightarrow> error + tensor" where
  "SPP_forward m x0 =
     bind_r (Conv_forward (spp_conv1 m) x0) (\<lambda>x.
     bind_r (MaxPool2d_forward (spp_res_m m) x) (\<lambda>y1.
     bind_r (MaxPool2d_forward (spp_res_m m) y1) (\<lambda>y2.
     bind_r (MaxPool2d_forward (spp_res_m m) y2) (\<lambda>y3.
     bind_r (cat_t [x, y1, y2, y3]) (Conv_forward (spp_conv2 m))))))"

section \<open>DarkNet (the backbone)\<close>

text \<open>
  Each stage is a \<^verbatim>\<open>Sequential\<close>: its members in order. Every index into \<^verbatim>\<open>width\<close> and
  \<^verbatim>\<open>depth\<close> is at most 5 and 2, and an index out of range raises \<open>IndexError\<close>
  whichever comes first, so the constructor raises exactly when a list is too short.
\<close>

record DarkNet =
  p1 :: Conv
  p2 :: "Conv \<times> CSP"
  p3 :: "Conv \<times> CSP"
  p4 :: "Conv \<times> CSP"
  p5 :: "Conv \<times> CSP \<times> SPP"

definition DarkNet_init :: "nat list \<Rightarrow> nat list \<Rightarrow> error + DarkNet" where
  "DarkNet_init width depth =
     (if length width < 6 \<or> length depth < 3 then Inl IndexError
      else Inr
        \<lparr>p1 = Conv_init (width ! 0) (width ! 1) 3 2,
         p2 = (Conv_init (width ! 1) (width ! 2) 3 2,
               CSP_init (width ! 2) (width ! 2) (depth ! 0) True),
         p3 = (Conv_init (width ! 2) (width ! 3) 3 2,
               CSP_init (width ! 3) (width ! 3) (depth ! 1) True),
         p4 = (Conv_init (width ! 3) (width ! 4) 3 2,
               CSP_init (width ! 4) (width ! 4) (depth ! 2) True),
         p5 = (Conv_init (width ! 4) (width ! 5) 3 2,
               CSP_init (width ! 5) (width ! 5) (depth ! 0) True,
               SPP_init (width ! 5) (width ! 5) 5)\<rparr>)"

definition Conv_CSP_forward :: "Conv \<times> CSP \<Rightarrow> tensor \<Rightarrow> error + tensor" where
  "Conv_CSP_forward s x = bind_r (Conv_forward (fst s) x) (CSP_forward (snd s))"

definition Conv_CSP_SPP_forward :: "Conv \<times> CSP \<times> SPP \<Rightarrow> tensor \<Rightarrow> error + tensor" where
  "Conv_CSP_SPP_forward s x =
     bind_r (Conv_forward (fst s) x) (\<lambda>y.
     bind_r (CSP_forward (fst (snd s)) y) (SPP_forward (snd (snd s))))"

definition DarkNet_forward :: "DarkNet \<Rightarrow> tensor \<Rightarrow> error + tensor \<times> tensor \<times> tensor" where
  "DarkNet_forward m x =
     bind_r (Conv_forward (p1 m) x) (\<lambda>p1'.
     bind_r (Conv_CSP_forward (p2 m) p1') (\<lambda>p2'.
     bind_r (Conv_CSP_forward (p3 m) p2') (\<lambda>p3'.
     bind_r (Conv_CSP_forward (p4 m) p3') (\<lambda>p4'.
     bind_r (Conv_CSP_SPP_forward (p5 m) p4') (\<lambda>p5'.
       Inr (p3', p4', p5'))))))"

section \<open>DarkFPN (the pyramid fusion)\<close>

record DarkFPN =
  up :: Upsample
  h1 :: CSP
  h2 :: CSP
  h3 :: Conv
  h4 :: CSP
  h5 :: Conv
  h6 :: CSP

definition DarkFPN_init :: "nat list \<Rightarrow> nat list \<Rightarrow> error + DarkFPN" where
  "DarkFPN_init width depth =
     (if length width < 6 \<or> length depth < 1 then Inl IndexError
      else Inr
        \<lparr>up = \<lparr>scale_factor = 2\<rparr>,
         h1 = CSP_init (width ! 4 + width ! 5) (width ! 4) (depth ! 0) False,
         h2 = CSP_init (width ! 3 + width ! 4) (width ! 3) (depth ! 0) False,
         h3 = Conv_init (width ! 3) (width ! 3) 3 2,
         h4 = CSP_init (width ! 3 + width ! 4) (width ! 4) (depth ! 0) False,
         h5 = Conv_init (width ! 4) (width ! 4) 3 2,
         h6 = CSP_init (width ! 4 + width ! 5) (width ! 5) (depth ! 0) False\<rparr>)"

definition DarkFPN_forward ::
  "DarkFPN \<Rightarrow> tensor \<Rightarrow> tensor \<Rightarrow> tensor \<Rightarrow> error + tensor \<times> tensor \<times> tensor" where
  "DarkFPN_forward m p3' p4' p5' =
     bind_r (cat_t [Upsample_forward (up m) p5', p4']) (\<lambda>c1.
     bind_r (CSP_forward (h1 m) c1) (\<lambda>p4a.
     bind_r (cat_t [Upsample_forward (up m) p4a, p3']) (\<lambda>c2.
     bind_r (CSP_forward (h2 m) c2) (\<lambda>p3b.
     bind_r (Conv_forward (h3 m) p3b) (\<lambda>d3.
     bind_r (cat_t [d3, p4a]) (\<lambda>c3.
     bind_r (CSP_forward (h4 m) c3) (\<lambda>p4b.
     bind_r (Conv_forward (h5 m) p4b) (\<lambda>d4.
     bind_r (cat_t [d4, p5']) (\<lambda>c4.
     bind_r (CSP_forward (h6 m) c4) (\<lambda>p5b.
       Inr (p3b, p4b, p5b)))))))))))"

section \<open>Head (the detection head)\<close>

text \<open>
  A branch is \<^verbatim>\<open>Sequential(Conv, Conv, Conv2d)\<close>; the bare convolution keeps the
  library's defaults (stride 1, no padding, a bias).
\<close>

definition Conv2d_init :: "nat \<Rightarrow> nat \<Rightarrow> nat \<Rightarrow> Conv2d" where
  "Conv2d_init in_ch out_ch k =
     \<lparr>in_channels = in_ch, out_channels = out_ch, kernel_size = k, conv_stride = 1,
      padding = 0, bias = True, conv_mode = FloatModule\<rparr>"

record Head =
  nc :: nat
  no :: nat
  head_stride :: "real list"
  box :: "(Conv \<times> Conv \<times> Conv2d) list"
  cls :: "(Conv \<times> Conv \<times> Conv2d) list"

definition Head_init :: "nat \<Rightarrow> nat list \<Rightarrow> error + Head" where
  "Head_init num_classes ch =
     bind_r (py_nth ch 0) (\<lambda>ch0.
       let box_w = max 64 (ch0 div 4);
           cls_w = max 80 (max ch0 num_classes)
       in Inr
         \<lparr>nc = num_classes,
          no = num_classes + 4,
          head_stride = replicate (length ch) 0,
          box = map (\<lambda>x. (Conv_init x box_w 3 1, Conv_init box_w box_w 3 1,
                           Conv2d_init box_w 4 1)) ch,
          cls = map (\<lambda>x. (Conv_init x cls_w 3 1, Conv_init cls_w cls_w 3 1,
                           Conv2d_init cls_w num_classes 1)) ch\<rparr>)"

definition branch_forward :: "Conv \<times> Conv \<times> Conv2d \<Rightarrow> tensor \<Rightarrow> error + tensor" where
  "branch_forward s x =
     bind_r (Conv_forward (fst s) x) (\<lambda>y.
     bind_r (Conv_forward (fst (snd s)) y) (Conv2d_forward (snd (snd s))))"

text \<open>
  One scale of \<^verbatim>\<open>Head.forward\<close>: \<^verbatim>\<open>self.box[i](p)\<close>, \<^verbatim>\<open>self.cls[i](p)\<close> and their
  concatenation. The source writes the three lines once for each of the scales 0, 1, 2.
\<close>

definition Head_scale :: "Head \<Rightarrow> nat \<Rightarrow> tensor \<Rightarrow> error + tensor" where
  "Head_scale m i p =
     bind_r (py_nth (box m) i) (\<lambda>b.
     bind_r (branch_forward b p) (\<lambda>box_out.
     bind_r (py_nth (cls m) i) (\<lambda>c.
     bind_r (branch_forward c p) (\<lambda>cls_out.
       cat_t [box_out, cls_out]))))"

definition Head_forward :: "Head \<Rightarrow> tensor \<Rightarrow> tensor \<Rightarrow> tensor \<Rightarrow> error + tensor list" where
  "Head_forward m p3' p4' p5' =
     bind_r (Head_scale m 0 p3') (\<lambda>out0.
     bind_r (Head_scale m 1 p4') (\<lambda>out1.
     bind_r (Head_scale m 2 p5') (\<lambda>out2.
       Inr [out0, out1, out2])))"

section \<open>YOLO (the detection model)\<close>

record YOLO =
  net :: DarkNet
  fpn :: DarkFPN
  head :: Head
  stride :: "real list"

text \<open>
  \<^verbatim>\<open>YOLO.forward\<close> reads the three sub-modules only; the constructor calls it before
  the attribute \<^verbatim>\<open>stride\<close> exists, so it is written on the sub-modules.
\<close>

definition forward_modules ::
  "DarkNet \<Rightarrow> DarkFPN \<Rightarrow> Head \<Rightarrow> tensor \<Rightarrow> error + tensor list" where
  "forward_modules n f h x =
     bind_r (DarkNet_forward n x) (\<lambda>(p3', p4', p5').
     bind_r (DarkFPN_forward f p3' p4' p5') (\<lambda>(q3, q4, q5).
       Head_forward h q3 q4 q5))"

definition YOLO_forward :: "YOLO \<Rightarrow> tensor \<Rightarrow> error + tensor list" where
  "YOLO_forward m x = forward_modules (net m) (fpn m) (head m) x"

text \<open>\<^verbatim>\<open>[256 / x.shape[-2] for x in outs]\<close>; the quotient is idealised as a real.\<close>

fun strides_of :: "tensor list \<Rightarrow> error + real list" where
  "strides_of [] = Inr []"
| "strides_of (x # xs) =
     (if t_height x = 0 then Inl ZeroDivisionError
      else bind_r (strides_of xs) (\<lambda>ss. Inr (256 / real (t_height x) # ss)))"

definition YOLO_init :: "nat list \<Rightarrow> nat list \<Rightarrow> nat \<Rightarrow> error + YOLO" where
  "YOLO_init width depth num_classes =
     bind_r (DarkNet_init width depth) (\<lambda>net0.
     bind_r (DarkFPN_init width depth) (\<lambda>fpn0.
     bind_r (py_nth width 0) (\<lambda>w0.
       let img_dummy = zeros 1 w0 256 256 in
     bind_r (py_nth width 3) (\<lambda>w3.
     bind_r (py_nth width 4) (\<lambda>w4.
     bind_r (py_nth width 5) (\<lambda>w5.
     bind_r (Head_init num_classes [w3, w4, w5]) (\<lambda>head0.
     bind_r (forward_modules net0 fpn0 head0 img_dummy) (\<lambda>outs.
     bind_r (strides_of outs) (\<lambda>s.
       Inr \<lparr>net = net0, fpn = fpn0, head = head0\<lparr>head_stride := s\<rparr>, stride = s\<rparr>)))))))))"

section \<open>QAT (the quantization wrapper)\<close>

text \<open>
  The two stubs are the identity as built; the library's conversion replaces the entry
  stub by a quantizer with a scale and a zero-point, and the exit stub by a dequantizer.
\<close>

datatype QuantStub = QuantStub | Quantize real int

datatype DeQuantStub = DeQuantStub | DeQuantize

fun QuantStub_forward :: "QuantStub \<Rightarrow> tensor \<Rightarrow> error + tensor" where
  "QuantStub_forward QuantStub x = Inr x"
| "QuantStub_forward (Quantize s z) x = quantize_per_tensor x s z"

fun DeQuantStub_forward :: "DeQuantStub \<Rightarrow> tensor \<Rightarrow> tensor" where
  "DeQuantStub_forward DeQuantStub x = x"
| "DeQuantStub_forward DeQuantize x = dequantize x"

record QAT =
  model :: YOLO
  quant :: QuantStub
  de_quant :: DeQuantStub
  qat_nc :: nat
  qat_no :: nat
  qat_stride :: "real list"

definition QAT_init :: "YOLO \<Rightarrow> QAT" where
  "QAT_init m =
     \<lparr>model = m, quant = QuantStub, de_quant = DeQuantStub,
      qat_nc = nc (head m), qat_no = no (head m), qat_stride = stride m\<rparr>"

definition QAT_forward :: "QAT \<Rightarrow> tensor \<Rightarrow> error + tensor list" where
  "QAT_forward q x =
     bind_r (QuantStub_forward (quant q) x) (\<lambda>x1.
     bind_r (YOLO_forward (model q) x1) (\<lambda>x2.
       Inr (map (DeQuantStub_forward (de_quant q)) x2)))"

section \<open>The six variants\<close>

definition yolo_v8_n :: "nat \<Rightarrow> error + YOLO" where
  "yolo_v8_n num_classes = YOLO_init [3, 16, 32, 64, 128, 256] [1, 2, 2] num_classes"

definition yolo_v8_t :: "nat \<Rightarrow> error + YOLO" where
  "yolo_v8_t num_classes = YOLO_init [3, 24, 48, 96, 192, 384] [1, 2, 2] num_classes"

definition yolo_v8_s :: "nat \<Rightarrow> error + YOLO" where
  "yolo_v8_s num_classes = YOLO_init [3, 32, 64, 128, 256, 512] [1, 2, 2] num_classes"

definition yolo_v8_m :: "nat \<Rightarrow> error + YOLO" where
  "yolo_v8_m num_classes = YOLO_init [3, 48, 96, 192, 384, 576] [2, 4, 4] num_classes"

definition yolo_v8_l :: "nat \<Rightarrow> error + YOLO" where
  "yolo_v8_l num_classes = YOLO_init [3, 64, 128, 256, 512, 512] [3, 6, 6] num_classes"

definition yolo_v8_x :: "nat \<Rightarrow> error + YOLO" where
  "yolo_v8_x num_classes = YOLO_init [3, 80, 160, 320, 640, 640] [3, 6, 6] num_classes"

section \<open>Notions used to state the properties\<close>

text \<open>
  The hidden channel width of a head branch, at each of its four occurrences: what the
  first block emits, what the second block takes and emits, what the bare convolution
  takes.
\<close>

definition branch_widths :: "Conv \<times> Conv \<times> Conv2d \<Rightarrow> nat list" where
  "branch_widths s =
     [out_channels (conv (fst s)), in_channels (conv (fst (snd s))),
      out_channels (conv (fst (snd s))), in_channels (snd (snd s))]"


text \<open>
  A construction succeeded and, on the image of the construction, the backbone and the
  pyramid each return three maps with the configured widths \<open>width[3]\<close>, \<open>width[4]\<close>,
  \<open>width[5]\<close>, which the next stage accepts, and the head returns three maps of
  \<open>num_classes + 4\<close> channels.
\<close>

definition builds_clean :: "nat list \<Rightarrow> nat \<Rightarrow> error + YOLO \<Rightarrow> bool" where
  "builds_clean width num_classes r =
     (case r of
        Inl e \<Rightarrow> False
      | Inr m \<Rightarrow>
          (case DarkNet_forward (net m) (zeros 1 (width ! 0) 256 256) of
             Inl e \<Rightarrow> False
           | Inr b \<Rightarrow>
               map t_chans [fst b, fst (snd b), snd (snd b)] =
                 [width ! 3, width ! 4, width ! 5] \<and>
               (case DarkFPN_forward (fpn m) (fst b) (fst (snd b)) (snd (snd b)) of
                  Inl e \<Rightarrow> False
                | Inr f \<Rightarrow>
                    map t_chans [fst f, fst (snd f), snd (snd f)] =
                      [width ! 3, width ! 4, width ! 5] \<and>
                    (case Head_forward (head m) (fst f) (fst (snd f)) (snd (snd f)) of
                       Inl e \<Rightarrow> False
                     | Inr outs \<Rightarrow> map t_chans outs = replicate 3 (num_classes + 4)))))"

section \<open>Shapes through the layers as built\<close>

text \<open>
  Facts about the modules as the constructors build them (real-valued layers), on
  real-valued inputs of the expected channel count.
\<close>

lemma bind_r_simps [simp]:
  "bind_r (Inl e) f = Inl e" "bind_r (Inr v) f = f v"
  by (simp_all add: bind_r_def)

lemma Conv_forward_real:
  assumes "t_quant x = RealValued" "t_chans x = cin" "0 < k" "0 < s"
    "k \<le> t_height x + 2 * ((k - 1) div 2)" "k \<le> t_width x + 2 * ((k - 1) div 2)"
  shows "Conv_forward (Conv_init cin cout k s) x =
    Inr (x\<lparr>t_chans := cout,
           t_height := (t_height x + 2 * ((k - 1) div 2) - k) div s + 1,
           t_width := (t_width x + 2 * ((k - 1) div 2) - k) div s + 1\<rparr>)"
  using assms
  by (simp add: Conv_forward_def Conv_init_def Conv2d_forward_def BatchNorm2d_forward_def
      SiLU_forward_def mul_t_def relu_t_def sigmoid_t_def broadcast_def broadcast_dim_def
      window_out_def is_quantized_def)

lemma Conv_forward_k1:
  assumes "t_quant x = RealValued" "t_chans x = cin" "0 < t_height x" "0 < t_width x"
  shows "Conv_forward (Conv_init cin cout 1 1) x = Inr (x\<lparr>t_chans := cout\<rparr>)"
  using assms Conv_forward_real [of x cin 1 1 cout] by simp

lemma Conv_forward_k3s1:
  assumes "t_quant x = RealValued" "t_chans x = cin" "0 < t_height x" "0 < t_width x"
  shows "Conv_forward (Conv_init cin cout 3 1) x = Inr (x\<lparr>t_chans := cout\<rparr>)"
  using assms Conv_forward_real [of x cin 3 1 cout] by simp

lemma Conv_forward_k3s2:
  assumes "t_quant x = RealValued" "t_chans x = cin" "0 < t_height x" "0 < t_width x"
  shows "Conv_forward (Conv_init cin cout 3 2) x =
    Inr (x\<lparr>t_chans := cout, t_height := (t_height x - 1) div 2 + 1,
           t_width := (t_width x - 1) div 2 + 1\<rparr>)"
  using assms Conv_forward_real [of x cin 3 2 cout] by simp

lemma add_t_self:
  "t_quant x = RealValued \<Longrightarrow> add_t x x = Inr x"
  by (simp add: add_t_def broadcast_def broadcast_dim_def is_quantized_def)

lemma Residual_forward_real:
  assumes "t_quant x = RealValued" "t_chans x = ch" "0 < t_height x" "0 < t_width x"
  shows "Residual_forward (Residual_init ch add) x = Inr x"
proof -
  have c1: "res_conv1 (Residual_init ch add) = Conv_init ch ch 3 1"
    and c2: "res_conv2 (Residual_init ch add) = Conv_init ch ch 3 1"
    and a: "add_m (Residual_init ch add) = add"
    by (simp_all add: Residual_init_def)
  have f: "Conv_forward (Conv_init ch ch 3 1) x = Inr x"
    using Conv_forward_k3s1 [OF assms, of ch] assms by simp
  show ?thesis
    unfolding Residual_forward_def c1 c2 a f bind_r_simps
    using assms by (simp add: add_t_self)
qed

lemma CSP_chain_replicate:
  assumes "ys \<noteq> []" "t_quant (last ys) = RealValued" "t_chans (last ys) = ch"
    "0 < t_height (last ys)" "0 < t_width (last ys)"
  shows "CSP_chain (replicate n (Residual_init ch add)) ys = Inr (ys @ replicate n (last ys))"
  using assms
proof (induction n arbitrary: ys)
  case 0
  then show ?case by simp
next
  case (Suc n)
  have "CSP_chain (replicate (Suc n) (Residual_init ch add)) ys =
      CSP_chain (replicate n (Residual_init ch add)) (ys @ [last ys])"
    using Suc.prems by (simp add: Residual_forward_real)
  also have "\<dots> = Inr ((ys @ [last ys]) @ replicate n (last (ys @ [last ys])))"
    using Suc.prems by (intro Suc.IH) simp_all
  finally show ?case by (simp add: replicate_app_Cons_same)
qed

lemma chunk2_even:
  assumes "even (t_chans y)"
  shows "chunk2 y = [y\<lparr>t_chans := t_chans y div 2\<rparr>, y\<lparr>t_chans := t_chans y div 2\<rparr>]"
proof (cases "t_chans y = 0")
  case True
  then show ?thesis by (simp add: chunk2_def)
next
  case False
  from assms obtain k where k: "t_chans y = 2 * k" by (auto elim: evenE)
  with False have "0 < k" by simp
  with k show ?thesis by (simp add: chunk2_def Let_def)
qed

lemma CSP_y_list_real:
  assumes "even out_ch" "t_quant x = RealValued" "t_chans x = in_ch"
    "0 < t_height x" "0 < t_width x"
  shows "CSP_y_list (CSP_init in_ch out_ch n add) x =
    Inr (replicate (2 + n) (x\<lparr>t_chans := out_ch div 2\<rparr>))"
proof -
  let ?y = "x\<lparr>t_chans := out_ch\<rparr>" and ?t = "x\<lparr>t_chans := out_ch div 2\<rparr>"
  have c1: "csp_conv1 (CSP_init in_ch out_ch n add) = Conv_init in_ch out_ch 1 1"
    and r: "res_m (CSP_init in_ch out_ch n add) = replicate n (Residual_init (out_ch div 2) add)"
    by (simp_all add: CSP_init_def)
  have f: "Conv_forward (Conv_init in_ch out_ch 1 1) x = Inr ?y"
    by (rule Conv_forward_k1) fact+
  have ch: "chunk2 ?y = [?t, ?t]"
    using chunk2_even [of ?y] assms(1) by simp
  have "CSP_chain (replicate n (Residual_init (out_ch div 2) add)) [?t, ?t] =
      Inr ([?t, ?t] @ replicate n (last [?t, ?t]))"
    by (rule CSP_chain_replicate) (simp_all add: assms)
  then have chain: "CSP_chain (replicate n (Residual_init (out_ch div 2) add)) [?t, ?t] =
      Inr (replicate (2 + n) ?t)"
    by simp
  show ?thesis
    unfolding CSP_y_list_def c1 r f bind_r_simps ch chain ..
qed

lemma cat_t_replicate:
  "cat_t (replicate (Suc n) t) = Inr (t\<lparr>t_chans := Suc n * t_chans t\<rparr>)"
  by (simp add: cat_t_def list_all_length same_repr_def same_outer_def sum_list_replicate)

lemma CSP_y_out_real:
  assumes "t_quant t = RealValued"
  shows "CSP_y_out x (replicate (2 + n) t) = Inr (t\<lparr>t_chans := (2 + n) * t_chans t\<rparr>)"
proof -
  have "\<not> list_ex is_quantized (replicate (2 + n) t)"
    using assms by (simp add: list_ex_iff is_quantized_def)
  moreover have "cat_t (replicate (2 + n) t) = Inr (t\<lparr>t_chans := (2 + n) * t_chans t\<rparr>)"
    using cat_t_replicate [of "Suc n" t] by simp
  ultimately show ?thesis by (simp only: CSP_y_out_def if_False)
qed

lemma CSP_forward_real:
  assumes "even out_ch" "t_quant x = RealValued" "t_chans x = in_ch"
    "0 < t_height x" "0 < t_width x"
  shows "CSP_forward (CSP_init in_ch out_ch n add) x = Inr (x\<lparr>t_chans := out_ch\<rparr>)"
proof -
  let ?t = "x\<lparr>t_chans := out_ch div 2\<rparr>" and ?c = "x\<lparr>t_chans := (2 + n) * out_ch div 2\<rparr>"
  from assms(1) obtain k where k: "out_ch = 2 * k" by (auto elim: evenE)
  have w: "(2 + n) * (out_ch div 2) = (2 + n) * out_ch div 2"
    using k by simp
  have c2: "csp_conv2 (CSP_init in_ch out_ch n add) =
      Conv_init ((2 + n) * out_ch div 2) out_ch 1 1"
    by (simp add: CSP_init_def)
  have yl: "CSP_y_list (CSP_init in_ch out_ch n add) x = Inr (replicate (2 + n) ?t)"
    by (rule CSP_y_list_real) fact+
  have "CSP_y_out x (replicate (2 + n) ?t) = Inr (?t\<lparr>t_chans := (2 + n) * t_chans ?t\<rparr>)"
    by (rule CSP_y_out_real) (simp add: assms)
  also have "?t\<lparr>t_chans := (2 + n) * t_chans ?t\<rparr> = ?c"
    using w by simp
  finally have yo: "CSP_y_out x (replicate (2 + n) ?t) = Inr ?c" .
  have "Conv_forward (Conv_init ((2 + n) * out_ch div 2) out_ch 1 1) ?c =
      Inr (?c\<lparr>t_chans := out_ch\<rparr>)"
    by (rule Conv_forward_k1) (simp_all add: assms)
  then have f: "Conv_forward (Conv_init ((2 + n) * out_ch div 2) out_ch 1 1) ?c =
      Inr (x\<lparr>t_chans := out_ch\<rparr>)"
    by simp
  show ?thesis
    unfolding CSP_forward_def yl bind_r_simps yo c2 f ..
qed

lemma SPP_forward_real:
  assumes "even in_ch" "t_quant x = RealValued" "t_chans x = in_ch"
    "0 < t_height x" "0 < t_width x"
  shows "SPP_forward (SPP_init in_ch out_ch 5) x = Inr (x\<lparr>t_chans := out_ch\<rparr>)"
proof -
  from assms(1) obtain k where k: "in_ch = 2 * k" by (auto elim: evenE)
  let ?y = "x\<lparr>t_chans := in_ch div 2\<rparr>" and ?c = "x\<lparr>t_chans := in_ch * 2\<rparr>"
  have c1: "spp_conv1 (SPP_init in_ch out_ch 5) = Conv_init in_ch (in_ch div 2) 1 1"
    and c2: "spp_conv2 (SPP_init in_ch out_ch 5) = Conv_init (in_ch * 2) out_ch 1 1"
    by (simp_all add: SPP_init_def)
  have f1: "Conv_forward (Conv_init in_ch (in_ch div 2) 1 1) x = Inr ?y"
    by (rule Conv_forward_k1) fact+
  have pool: "MaxPool2d_forward (spp_res_m (SPP_init in_ch out_ch 5)) ?y = Inr ?y"
    using assms by (simp add: SPP_init_def MaxPool2d_forward_def window_out_def)
  have cat: "cat_t [?y, ?y, ?y, ?y] = Inr ?c"
    using k by (simp add: cat_t_def same_repr_def same_outer_def)
  have "Conv_forward (Conv_init (in_ch * 2) out_ch 1 1) ?c = Inr (?c\<lparr>t_chans := out_ch\<rparr>)"
    by (rule Conv_forward_k1) (simp_all add: assms)
  then have f2: "Conv_forward (Conv_init (in_ch * 2) out_ch 1 1) ?c = Inr (x\<lparr>t_chans := out_ch\<rparr>)"
    by simp
  show ?thesis
    unfolding SPP_forward_def c1 c2 f1 bind_r_simps pool cat f2 ..
qed

lemma Conv2d_forward_k1:
  assumes "t_quant x = RealValued" "t_chans x = cin" "0 < t_height x" "0 < t_width x"
  shows "Conv2d_forward (Conv2d_init cin cout 1) x = Inr (x\<lparr>t_chans := cout\<rparr>)"
  using assms
  by (simp add: Conv2d_forward_def Conv2d_init_def window_out_def is_quantized_def)

lemma branch_forward_real:
  assumes "t_quant x = RealValued" "t_chans x = cin" "0 < t_height x" "0 < t_width x"
  shows "branch_forward (Conv_init cin c 3 1, Conv_init c c 3 1, Conv2d_init c cout 1) x =
    Inr (x\<lparr>t_chans := cout\<rparr>)"
proof -
  let ?y = "x\<lparr>t_chans := c\<rparr>"
  have f1: "Conv_forward (Conv_init cin c 3 1) x = Inr ?y"
    by (rule Conv_forward_k3s1) fact+
  have "Conv_forward (Conv_init c c 3 1) ?y = Inr (?y\<lparr>t_chans := c\<rparr>)"
    by (rule Conv_forward_k3s1) (simp_all add: assms)
  then have f2: "Conv_forward (Conv_init c c 3 1) ?y = Inr ?y"
    by simp
  have "Conv2d_forward (Conv2d_init c cout 1) ?y = Inr (?y\<lparr>t_chans := cout\<rparr>)"
    by (rule Conv2d_forward_k1) (simp_all add: assms)
  then have f3: "Conv2d_forward (Conv2d_init c cout 1) ?y = Inr (x\<lparr>t_chans := cout\<rparr>)"
    by simp
  show ?thesis
    unfolding branch_forward_def fst_conv snd_conv f1 bind_r_simps f2 f3 ..
qed

lemma Head_init_Inr:
  assumes "ch \<noteq> []"
  shows "Head_init num_classes ch = Inr
     \<lparr>nc = num_classes, no = num_classes + 4, head_stride = replicate (length ch) 0,
      box = map (\<lambda>x. (Conv_init x (max 64 (hd ch div 4)) 3 1,
                       Conv_init (max 64 (hd ch div 4)) (max 64 (hd ch div 4)) 3 1,
                       Conv2d_init (max 64 (hd ch div 4)) 4 1)) ch,
      cls = map (\<lambda>x. (Conv_init x (max 80 (max (hd ch) num_classes)) 3 1,
                       Conv_init (max 80 (max (hd ch) num_classes))
                         (max 80 (max (hd ch) num_classes)) 3 1,
                       Conv2d_init (max 80 (max (hd ch) num_classes)) num_classes 1)) ch\<rparr>"
  using assms by (cases ch) (simp_all add: Head_init_def py_nth_def Let_def)

lemma Head_scale_real:
  assumes h: "Head_init num_classes ch = Inr m" and i: "i < length ch"
    and x: "t_quant x = RealValued" "t_chans x = ch ! i" "0 < t_height x" "0 < t_width x"
  shows "Head_scale m i x = Inr (x\<lparr>t_chans := 4 + num_classes\<rparr>)"
proof -
  let ?bw = "max 64 (hd ch div 4)" and ?cw = "max 80 (max (hd ch) num_classes)"
  from i have ne: "ch \<noteq> []" by auto
  from h Head_init_Inr [OF ne, of num_classes]
  have b: "box m = map (\<lambda>x. (Conv_init x ?bw 3 1, Conv_init ?bw ?bw 3 1, Conv2d_init ?bw 4 1)) ch"
    and c: "cls m = map (\<lambda>x. (Conv_init x ?cw 3 1, Conv_init ?cw ?cw 3 1,
                               Conv2d_init ?cw num_classes 1)) ch"
    by auto
  have pb: "py_nth (box m) i =
      Inr (Conv_init (ch ! i) ?bw 3 1, Conv_init ?bw ?bw 3 1, Conv2d_init ?bw 4 1)"
    using i by (simp add: py_nth_def b)
  have pc: "py_nth (cls m) i =
      Inr (Conv_init (ch ! i) ?cw 3 1, Conv_init ?cw ?cw 3 1, Conv2d_init ?cw num_classes 1)"
    using i by (simp add: py_nth_def c)
  have fb: "branch_forward (Conv_init (ch ! i) ?bw 3 1, Conv_init ?bw ?bw 3 1,
      Conv2d_init ?bw 4 1) x = Inr (x\<lparr>t_chans := 4\<rparr>)"
    by (rule branch_forward_real) fact+
  have fc: "branch_forward (Conv_init (ch ! i) ?cw 3 1, Conv_init ?cw ?cw 3 1,
      Conv2d_init ?cw num_classes 1) x = Inr (x\<lparr>t_chans := num_classes\<rparr>)"
    by (rule branch_forward_real) fact+
  have cat: "cat_t [x\<lparr>t_chans := 4\<rparr>, x\<lparr>t_chans := num_classes\<rparr>] =
      Inr (x\<lparr>t_chans := 4 + num_classes\<rparr>)"
    by (simp add: cat_t_def same_repr_def same_outer_def is_quantized_def)
  show ?thesis
    unfolding Head_scale_def pb pc bind_r_simps fb fc cat ..
qed

lemma cat_t_pair:
  assumes "t_quant x = RealValued" "t_quant y = RealValued" "t_batch x = t_batch y"
    "t_height x = t_height y" "t_width x = t_width y"
  shows "cat_t [x, y] = Inr (x\<lparr>t_chans := t_chans x + t_chans y\<rparr>)"
  using assms by (simp add: cat_t_def same_repr_def same_outer_def is_quantized_def)

lemma DarkNet_forward_256:
  assumes ev: "even w2" "even w3" "even w4" "even w5" and d: "3 \<le> length depth"
    and m: "DarkNet_init [w0, w1, w2, w3, w4, w5] depth = Inr m"
  shows "DarkNet_forward m (zeros n w0 256 256) =
    Inr (zeros n w3 32 32, zeros n w4 16 16, zeros n w5 8 8)"
proof -
  from m d have m': "m = \<lparr>p1 = Conv_init w0 w1 3 2,
         p2 = (Conv_init w1 w2 3 2, CSP_init w2 w2 (depth ! 0) True),
         p3 = (Conv_init w2 w3 3 2, CSP_init w3 w3 (depth ! 1) True),
         p4 = (Conv_init w3 w4 3 2, CSP_init w4 w4 (depth ! 2) True),
         p5 = (Conv_init w4 w5 3 2, CSP_init w5 w5 (depth ! 0) True, SPP_init w5 w5 5)\<rparr>"
    by (auto simp add: DarkNet_init_def split: if_splits)
  show ?thesis
    using ev
    by (simp add: m' DarkNet_forward_def Conv_CSP_forward_def Conv_CSP_SPP_forward_def
        zeros_def Conv_forward_k3s2 CSP_forward_real SPP_forward_real)
qed

lemma DarkFPN_forward_256:
  assumes ev: "even w3" "even w4" "even w5" and d: "1 \<le> length depth"
    and m: "DarkFPN_init [w0, w1, w2, w3, w4, w5] depth = Inr m"
  shows "DarkFPN_forward m (zeros n w3 32 32) (zeros n w4 16 16) (zeros n w5 8 8) =
    Inr (zeros n w3 32 32, zeros n w4 16 16, zeros n w5 8 8)"
proof -
  from m d have m': "m = \<lparr>up = \<lparr>scale_factor = 2\<rparr>,
         h1 = CSP_init (w4 + w5) w4 (depth ! 0) False,
         h2 = CSP_init (w3 + w4) w3 (depth ! 0) False,
         h3 = Conv_init w3 w3 3 2,
         h4 = CSP_init (w3 + w4) w4 (depth ! 0) False,
         h5 = Conv_init w4 w4 3 2,
         h6 = CSP_init (w4 + w5) w5 (depth ! 0) False\<rparr>"
    by (auto simp add: DarkFPN_init_def split: if_splits)
  show ?thesis
    using ev
    by (simp add: m' DarkFPN_forward_def zeros_def Upsample_forward_def cat_t_pair
        Conv_forward_k3s2 CSP_forward_real)
qed

lemma Head_forward_256:
  assumes m: "Head_init num_classes [w3, w4, w5] = Inr m"
  shows "Head_forward m (zeros n w3 32 32) (zeros n w4 16 16) (zeros n w5 8 8) =
    Inr [zeros n (4 + num_classes) 32 32, zeros n (4 + num_classes) 16 16,
         zeros n (4 + num_classes) 8 8]"
proof -
  have s0: "Head_scale m 0 (zeros n w3 32 32) = Inr (zeros n w3 32 32\<lparr>t_chans := 4 + num_classes\<rparr>)"
    by (rule Head_scale_real [OF m]) (simp_all add: zeros_def)
  have s1: "Head_scale m 1 (zeros n w4 16 16) = Inr (zeros n w4 16 16\<lparr>t_chans := 4 + num_classes\<rparr>)"
    by (rule Head_scale_real [OF m]) (simp_all add: zeros_def)
  have s2: "Head_scale m 2 (zeros n w5 8 8) = Inr (zeros n w5 8 8\<lparr>t_chans := 4 + num_classes\<rparr>)"
    by (rule Head_scale_real [OF m]) (simp_all add: zeros_def)
  show ?thesis
    unfolding Head_forward_def s0 s1 s2 bind_r_simps by (simp add: zeros_def)
qed

lemma Head_forward_stride:
  "Head_forward (h\<lparr>head_stride := s\<rparr>) = Head_forward h"
  by (simp add: Head_forward_def Head_scale_def fun_eq_iff)

lemma forward_modules_256:
  assumes ev: "even w2" "even w3" "even w4" "even w5"
    and n0: "DarkNet_init [w0, w1, w2, w3, w4, w5] depth = Inr net0"
    and f0: "DarkFPN_init [w0, w1, w2, w3, w4, w5] depth = Inr fpn0"
    and h0: "Head_init num_classes [w3, w4, w5] = Inr head0"
  shows "forward_modules net0 fpn0 head0 (zeros n w0 256 256) =
    Inr [zeros n (4 + num_classes) 32 32, zeros n (4 + num_classes) 16 16,
         zeros n (4 + num_classes) 8 8]"
proof -
  from n0 have d: "3 \<le> length depth"
    by (simp add: DarkNet_init_def split: if_splits)
  then have d1: "1 \<le> length depth" by simp
  show ?thesis
    unfolding forward_modules_def
      DarkNet_forward_256 [OF ev d n0] DarkFPN_forward_256 [OF ev(2-4) d1 f0]
      bind_r_simps prod.case Head_forward_256 [OF h0] ..
qed

lemma strides_of_256:
  "strides_of [zeros n c 32 32, zeros n c 16 16, zeros n c 8 8] = Inr [8, 16, 32]"
  by (simp add: zeros_def)

lemma YOLO_init_256:
  assumes ev: "even w2" "even w3" "even w4" "even w5" and d: "3 \<le> length depth"
  shows "\<exists>net0 fpn0 head0.
    DarkNet_init [w0, w1, w2, w3, w4, w5] depth = Inr net0 \<and>
    DarkFPN_init [w0, w1, w2, w3, w4, w5] depth = Inr fpn0 \<and>
    Head_init num_classes [w3, w4, w5] = Inr head0 \<and>
    YOLO_init [w0, w1, w2, w3, w4, w5] depth num_classes =
      Inr \<lparr>net = net0, fpn = fpn0, head = head0\<lparr>head_stride := [8, 16, 32]\<rparr>,
           stride = [8, 16, 32]\<rparr>"
proof -
  let ?W = "[w0, w1, w2, w3, w4, w5]"
  from d obtain net0 where n0: "DarkNet_init ?W depth = Inr net0"
    by (simp add: DarkNet_init_def)
  from d have "depth \<noteq> []" by auto
  then obtain fpn0 where f0: "DarkFPN_init ?W depth = Inr fpn0"
    by (simp add: DarkFPN_init_def)
  obtain head0 where h0: "Head_init num_classes [w3, w4, w5] = Inr head0"
    using Head_init_Inr [of "[w3, w4, w5]" num_classes] by simp
  have p: "py_nth ?W 0 = Inr w0" "py_nth ?W 3 = Inr w3" "py_nth ?W 4 = Inr w4"
    "py_nth ?W 5 = Inr w5"
    by (simp_all add: py_nth_def)
  have "YOLO_init ?W depth num_classes =
      Inr \<lparr>net = net0, fpn = fpn0, head = head0\<lparr>head_stride := [8, 16, 32]\<rparr>,
           stride = [8, 16, 32]\<rparr>"
    unfolding YOLO_init_def n0 f0 p bind_r_simps Let_def h0
      forward_modules_256 [OF ev n0 f0 h0] strides_of_256 ..
  with n0 f0 h0 show ?thesis by blast
qed

lemma YOLO_forward_256:
  assumes ev: "even w2" "even w3" "even w4" "even w5"
    and m: "YOLO_init [w0, w1, w2, w3, w4, w5] depth num_classes = Inr m"
  shows "YOLO_forward m (zeros n w0 256 256) =
    Inr [zeros n (4 + num_classes) 32 32, zeros n (4 + num_classes) 16 16,
         zeros n (4 + num_classes) 8 8]"
proof -
  have d: "3 \<le> length depth"
  proof (rule ccontr)
    assume "\<not> 3 \<le> length depth"
    then have "DarkNet_init [w0, w1, w2, w3, w4, w5] depth = Inl IndexError"
      by (simp add: DarkNet_init_def)
    with m show False by (simp add: YOLO_init_def)
  qed
  from YOLO_init_256 [OF ev d, of w0 w1 num_classes] m
  obtain net0 fpn0 head0 where
    n0: "DarkNet_init [w0, w1, w2, w3, w4, w5] depth = Inr net0" and
    f0: "DarkFPN_init [w0, w1, w2, w3, w4, w5] depth = Inr fpn0" and
    h0: "Head_init num_classes [w3, w4, w5] = Inr head0" and
    m': "m = \<lparr>net = net0, fpn = fpn0, head = head0\<lparr>head_stride := [8, 16, 32]\<rparr>,
           stride = [8, 16, 32]\<rparr>"
    by auto
  have "YOLO_forward m (zeros n w0 256 256) = forward_modules net0 fpn0 head0 (zeros n w0 256 256)"
    by (simp add: YOLO_forward_def m' forward_modules_def Head_forward_stride)
  then show ?thesis
    by (simp only: forward_modules_256 [OF ev n0 f0 h0])
qed

lemma YOLO_init_stride:
  assumes ev: "even w2" "even w3" "even w4" "even w5" and d: "3 \<le> length depth"
  shows "\<exists>m. YOLO_init [w0, w1, w2, w3, w4, w5] depth num_classes = Inr m \<and>
    stride m = [8, 16, 32] \<and> head_stride (head m) = [8, 16, 32]"
  using YOLO_init_256 [OF ev d, of w0 w1 num_classes] by auto

lemma replicate_4: "replicate 4 x = [x, x, x, x]"
  by (simp add: numeral_eq_Suc)



lemma replicate_3: "replicate 3 x = [x, x, x]"
  by (simp add: numeral_eq_Suc)



lemma bind_r_Inr_iff:
  "bind_r m f = Inr v \<longleftrightarrow> (\<exists>u. m = Inr u \<and> f u = Inr v)"
  by (cases m) simp_all

lemma res_m_CSP_init: "length (res_m (CSP_init a b n add)) = n"
  by (simp add: CSP_init_def)

lemma Head_forward_length:
  "Head_forward h a b c = Inr outs \<Longrightarrow> length outs = 3"
  by (auto simp add: Head_forward_def bind_r_Inr_iff)

lemma YOLO_forward_length:
  assumes "YOLO_forward m x = Inr outs"
  shows "length outs = 3"
proof -
  from assms obtain p q where "Head_forward (head m) (fst q) (fst (snd q)) (snd (snd q)) = Inr outs"
    by (auto simp add: YOLO_forward_def forward_modules_def bind_r_Inr_iff split: prod.splits)
  then show ?thesis by (rule Head_forward_length)
qed

lemma builds_clean_256:
  assumes ev: "even w2" "even w3" "even w4" "even w5" and d: "3 \<le> length depth"
  shows "builds_clean [w0, w1, w2, w3, w4, w5] num_classes
    (YOLO_init [w0, w1, w2, w3, w4, w5] depth num_classes)"
proof -
  let ?W = "[w0, w1, w2, w3, w4, w5]"
  from YOLO_init_256 [OF ev d, of w0 w1 num_classes]
  obtain net0 fpn0 head0 where
    n0: "DarkNet_init ?W depth = Inr net0" and
    f0: "DarkFPN_init ?W depth = Inr fpn0" and
    h0: "Head_init num_classes [w3, w4, w5] = Inr head0" and
    m: "YOLO_init ?W depth num_classes =
      Inr \<lparr>net = net0, fpn = fpn0, head = head0\<lparr>head_stride := [8, 16, 32]\<rparr>,
           stride = [8, 16, 32]\<rparr>"
    by blast
  from d have d1: "1 \<le> length depth" by simp
  have w: "?W ! 0 = w0" "?W ! 3 = w3" "?W ! 4 = w4" "?W ! 5 = w5"
    by simp_all
  show ?thesis
    unfolding builds_clean_def m w
    by (simp add: DarkNet_forward_256 [OF ev d n0] DarkFPN_forward_256 [OF ev(2-4) d1 f0]
        Head_forward_stride Head_forward_256 [OF h0] replicate_3)
      (simp add: zeros_def)
qed

lemma Conv2d_forward_channels:
  assumes "Conv2d_forward c x = Inr y"
  shows "t_chans x = in_channels c \<and> t_chans y = out_channels c"
  using assms
  by (auto simp add: Conv2d_forward_def bind_r_Inr_iff split: if_splits)

section \<open>The properties\<close>

text \<open>
  Counterexample to claim C1 as stated. For the head of the smallest variant
  (\<open>num_classes = 80\<close>, input widths \<open>(64, 128, 256)\<close>) the class branch of scale 1
  has hidden width 80 at each of its four occurrences, not \<open>max(80, 128, 80) = 128\<close>:
  the width is computed once, from \<^verbatim>\<open>ch[0]\<close>.
\<close>

theorem Head_widths_counterexample:
  "\<not> isl (Head_init 80 [64, 128, 256]) \<and>
   branch_widths (cls (projr (Head_init 80 [64, 128, 256])) ! 1) \<noteq>
     replicate 4 (max 80 (max ([64, 128, 256] ! 1) 80))"
  by (simp add: Head_init_def py_nth_def Let_def branch_widths_def Conv_init_def
      Conv2d_init_def replicate_4)

text \<open>
  Claim C1, amended. For every constructed head with input widths \<open>ch\<close> and class count
  \<open>num_classes\<close>, and for every scale \<open>i\<close>, the box branch of scale \<open>i\<close> has hidden
  width \<open>max(64, ch[0] div 4)\<close> and the class branch has hidden width
  \<open>max(80, ch[0], num_classes)\<close>: both are functions of the first scale's input
  channel count and the same for every scale. Only the input channel count of the
  first block of each branch is the scale's own \<open>ch[i]\<close>.
\<close>

theorem Head_widths_first_scale:
  assumes "Head_init num_classes ch = Inr m" and "i < length ch"
  shows "length (box m) = length ch \<and> length (cls m) = length ch \<and>
    branch_widths (box m ! i) = replicate 4 (max 64 (ch ! 0 div 4)) \<and>
    branch_widths (cls m ! i) = replicate 4 (max 80 (max (ch ! 0) num_classes)) \<and>
    in_channels (conv (fst (box m ! i))) = ch ! i \<and>
    in_channels (conv (fst (cls m ! i))) = ch ! i"
proof -
  from assms(2) have ne: "ch \<noteq> []" by auto
  then have h: "hd ch = ch ! 0" by (simp add: hd_conv_nth)
  from assms(1) Head_init_Inr [OF ne, of num_classes]
  have b: "box m = map (\<lambda>x. (Conv_init x (max 64 (hd ch div 4)) 3 1,
                       Conv_init (max 64 (hd ch div 4)) (max 64 (hd ch div 4)) 3 1,
                       Conv2d_init (max 64 (hd ch div 4)) 4 1)) ch"
    and c: "cls m = map (\<lambda>x. (Conv_init x (max 80 (max (hd ch) num_classes)) 3 1,
                       Conv_init (max 80 (max (hd ch) num_classes))
                         (max 80 (max (hd ch) num_classes)) 3 1,
                       Conv2d_init (max 80 (max (hd ch) num_classes)) num_classes 1)) ch"
    by auto
  show ?thesis
    using assms(2)
    by (simp add: b c h branch_widths_def Conv_init_def Conv2d_init_def replicate_4)
qed

text \<open>The amended claim C1 at scale 2 of the head of the smallest variant.\<close>

theorem Head_widths_first_scale_witness:
  "Head_init 80 [64, 128, 256] = Inr (projr (Head_init 80 [64, 128, 256])) \<and>
   (2::nat) < length [64, 128, 256 :: nat] \<and>
   branch_widths (box (projr (Head_init 80 [64, 128, 256])) ! 2) = [64, 64, 64, 64] \<and>
   branch_widths (cls (projr (Head_init 80 [64, 128, 256])) ! 2) = [80, 80, 80, 80] \<and>
   in_channels (conv (fst (cls (projr (Head_init 80 [64, 128, 256])) ! 2))) = 256"
proof -
  have a: "Head_init 80 [64, 128, 256] = Inr (projr (Head_init 80 [64, 128, 256]))"
    by (simp add: Head_init_def py_nth_def)
  have b: "(2::nat) < length [64, 128, 256 :: nat]" by simp
  from Head_widths_first_scale [OF a b] a b show ?thesis
    by (simp add: replicate_4)
qed


text \<open>
  Claim C3. The smallest variant built for 80 classes, applied to the real-valued input
  of shape \<open>(1, 3, 256, 256)\<close>, returns a list of exactly three tensors of 84 channels,
  of spatial sizes \<open>32 \<times> 32\<close>, \<open>16 \<times> 16\<close> and \<open>8 \<times> 8\<close>, in that order.
\<close>

theorem yolo_v8_n_forward_shapes:
  "\<exists>m outs. yolo_v8_n 80 = Inr m \<and>
    YOLO_forward m \<lparr>t_batch = 1, t_chans = 3, t_height = 256, t_width = 256,
                     t_quant = RealValued\<rparr> = Inr outs \<and>
    length outs = 3 \<and> map t_chans outs = [84, 84, 84] \<and>
    map t_height outs = [32, 16, 8] \<and> map t_width outs = [32, 16, 8] \<and>
    map t_quant outs = [RealValued, RealValued, RealValued]"
proof -
  have ev: "even (32::nat)" "even (64::nat)" "even (128::nat)" "even (256::nat)"
    by simp_all
  have d: "3 \<le> length [1, 2, 2 :: nat]" by simp
  from YOLO_init_stride [OF ev d, of 3 16 80]
  obtain m where m: "YOLO_init [3, 16, 32, 64, 128, 256] [1, 2, 2] 80 = Inr m"
    by blast
  have "YOLO_forward m (zeros 1 3 256 256) =
      Inr [zeros 1 (4 + 80) 32 32, zeros 1 (4 + 80) 16 16, zeros 1 (4 + 80) 8 8]"
    by (rule YOLO_forward_256 [OF ev m])
  then show ?thesis
    using m by (simp add: yolo_v8_n_def zeros_def)
qed







text \<open>
  Claim C7. In every backbone that is constructed, the groups of stages p2 and p5 are
  both built with the repetition count \<open>depth[0]\<close>, those of p3 and p4 with \<open>depth[1]\<close>
  and \<open>depth[2]\<close>; no fourth entry of \<open>depth\<close> is read (the first three entries give the
  same backbone). The forward pass returns \<open>(a, b, c)\<close> exactly when \<open>a\<close>, \<open>b\<close>, \<open>c\<close> are the
  outputs of the stages p3, p4, p5, each stage applied to the output of the one before.
\<close>

theorem DarkNet_depths:
  assumes "DarkNet_init width depth = Inr m"
  shows "snd (p2 m) = CSP_init (width ! 2) (width ! 2) (depth ! 0) True \<and>
    snd (p3 m) = CSP_init (width ! 3) (width ! 3) (depth ! 1) True \<and>
    snd (p4 m) = CSP_init (width ! 4) (width ! 4) (depth ! 2) True \<and>
    fst (snd (p5 m)) = CSP_init (width ! 5) (width ! 5) (depth ! 0) True \<and>
    length (res_m (snd (p2 m))) = depth ! 0 \<and>
    length (res_m (snd (p3 m))) = depth ! 1 \<and>
    length (res_m (snd (p4 m))) = depth ! 2 \<and>
    length (res_m (fst (snd (p5 m)))) = depth ! 0 \<and>
    DarkNet_init width (take 3 depth) = Inr m \<and>
    (DarkNet_forward m x = Inr (a, b, c) \<longleftrightarrow>
      (\<exists>s1 s2. Conv_forward (p1 m) x = Inr s1 \<and>
        Conv_CSP_forward (p2 m) s1 = Inr s2 \<and>
        Conv_CSP_forward (p3 m) s2 = Inr a \<and>
        Conv_CSP_forward (p4 m) a = Inr b \<and>
        Conv_CSP_SPP_forward (p5 m) b = Inr c))"
proof -
  from assms have l: "6 \<le> length width" "3 \<le> length depth"
    by (simp_all add: DarkNet_init_def split: if_splits)
  with assms have m: "m = \<lparr>p1 = Conv_init (width ! 0) (width ! 1) 3 2,
         p2 = (Conv_init (width ! 1) (width ! 2) 3 2,
               CSP_init (width ! 2) (width ! 2) (depth ! 0) True),
         p3 = (Conv_init (width ! 2) (width ! 3) 3 2,
               CSP_init (width ! 3) (width ! 3) (depth ! 1) True),
         p4 = (Conv_init (width ! 3) (width ! 4) 3 2,
               CSP_init (width ! 4) (width ! 4) (depth ! 2) True),
         p5 = (Conv_init (width ! 4) (width ! 5) 3 2,
               CSP_init (width ! 5) (width ! 5) (depth ! 0) True,
               SPP_init (width ! 5) (width ! 5) 5)\<rparr>"
    by (simp add: DarkNet_init_def)
  have s: "snd (p2 m) = CSP_init (width ! 2) (width ! 2) (depth ! 0) True"
    "snd (p3 m) = CSP_init (width ! 3) (width ! 3) (depth ! 1) True"
    "snd (p4 m) = CSP_init (width ! 4) (width ! 4) (depth ! 2) True"
    "fst (snd (p5 m)) = CSP_init (width ! 5) (width ! 5) (depth ! 0) True"
    by (simp_all add: m)
  have t: "DarkNet_init width (take 3 depth) = Inr m"
    using l by (simp add: DarkNet_init_def m)
  have f: "DarkNet_forward m x = Inr (a, b, c) \<longleftrightarrow>
      (\<exists>s1 s2. Conv_forward (p1 m) x = Inr s1 \<and>
        Conv_CSP_forward (p2 m) s1 = Inr s2 \<and>
        Conv_CSP_forward (p3 m) s2 = Inr a \<and>
        Conv_CSP_forward (p4 m) a = Inr b \<and>
        Conv_CSP_SPP_forward (p5 m) b = Inr c)"
    unfolding DarkNet_forward_def bind_r_Inr_iff by auto
  show ?thesis
    unfolding s res_m_CSP_init using t f by simp
qed

text \<open>Claim C7 on the configuration of the smallest variant.\<close>

theorem DarkNet_depths_witness:
  "DarkNet_init [3, 16, 32, 64, 128, 256] [1, 2, 2] =
     Inr (projr (DarkNet_init [3, 16, 32, 64, 128, 256] [1, 2, 2])) \<and>
   length (res_m (snd (p2 (projr (DarkNet_init [3, 16, 32, 64, 128, 256] [1, 2, 2]))))) = 1 \<and>
   length (res_m (snd (p3 (projr (DarkNet_init [3, 16, 32, 64, 128, 256] [1, 2, 2]))))) = 2 \<and>
   length (res_m (snd (p4 (projr (DarkNet_init [3, 16, 32, 64, 128, 256] [1, 2, 2]))))) = 2 \<and>
   length (res_m (fst (snd (p5 (projr (DarkNet_init [3, 16, 32, 64, 128, 256] [1, 2, 2])))))) = 1"
proof -
  have a: "DarkNet_init [3, 16, 32, 64, 128, 256] [1, 2, 2] =
     Inr (projr (DarkNet_init [3, 16, 32, 64, 128, 256] [1, 2, 2]))"
    by (simp add: DarkNet_init_def)
  let ?M = "projr (DarkNet_init [3, 16, 32, 64, 128, 256] [1, 2, 2])"
  from DarkNet_depths [OF a, where x = "zeros 1 3 256 256" and a = "zeros 1 3 256 256"
      and b = "zeros 1 3 256 256" and c = "zeros 1 3 256 256"]
  have "length (res_m (snd (p2 ?M))) = [1, 2, 2] ! 0 \<and>
      length (res_m (snd (p3 ?M))) = [1, 2, 2] ! 1 \<and>
      length (res_m (snd (p4 ?M))) = [1, 2, 2] ! 2 \<and>
      length (res_m (fst (snd (p5 ?M)))) = [1, 2, 2] ! 0"
    by (elim conjE) (intro conjI, assumption+)
  then have "length (res_m (snd (p2 ?M))) = 1 \<and>
      length (res_m (snd (p3 ?M))) = 2 \<and>
      length (res_m (snd (p4 ?M))) = 2 \<and>
      length (res_m (fst (snd (p5 ?M)))) = 1"
    by simp
  with a show ?thesis by (elim conjE) (intro conjI, assumption+)
qed

text \<open>
  Claim C8. The forward pass of the wrapper applies the entry stub to the input, runs
  the wrapped model on the result, and applies the exit stub to each tensor of the
  model's output list; an error of the entry stub or of the model is the error of the
  wrapper. Whenever it returns, it returns a list of three tensors, as long as the
  model's.
\<close>

theorem QAT_forward_composition:
  "QAT_forward q x =
     bind_r (QuantStub_forward (quant q) x) (\<lambda>xq.
     bind_r (YOLO_forward (model q) xq) (\<lambda>outs.
       Inr (map (DeQuantStub_forward (de_quant q)) outs))) \<and>
   (QAT_forward q x = Inr zs \<longrightarrow>
      length zs = 3 \<and>
      (\<exists>xq outs. QuantStub_forward (quant q) x = Inr xq \<and>
         YOLO_forward (model q) xq = Inr outs \<and> length outs = length zs \<and>
         zs = map (DeQuantStub_forward (de_quant q)) outs))"
proof (intro conjI impI)
  show "QAT_forward q x =
     bind_r (QuantStub_forward (quant q) x) (\<lambda>xq.
     bind_r (YOLO_forward (model q) xq) (\<lambda>outs.
       Inr (map (DeQuantStub_forward (de_quant q)) outs)))"
    by (simp add: QAT_forward_def)
next
  assume "QAT_forward q x = Inr zs"
  then obtain xq outs where a: "QuantStub_forward (quant q) x = Inr xq"
    and b: "YOLO_forward (model q) xq = Inr outs"
    and c: "zs = map (DeQuantStub_forward (de_quant q)) outs"
    by (auto simp add: QAT_forward_def bind_r_Inr_iff)
  from b have l: "length outs = 3" by (rule YOLO_forward_length)
  with c show "length zs = 3" by simp
  from a b c show "\<exists>xq outs. QuantStub_forward (quant q) x = Inr xq \<and>
         YOLO_forward (model q) xq = Inr outs \<and> length outs = length zs \<and>
         zs = map (DeQuantStub_forward (de_quant q)) outs"
    by auto
qed

text \<open>
  Claim C8 on the wrapper of the smallest variant, as built, and the input of shape
  \<open>(1, 3, 256, 256)\<close>.
\<close>

theorem QAT_forward_composition_witness:
  "QAT_forward (QAT_init (projr (yolo_v8_n 80))) (zeros 1 3 256 256) =
     Inr [zeros 1 84 32 32, zeros 1 84 16 16, zeros 1 84 8 8] \<and>
   length [zeros 1 84 32 32, zeros 1 84 16 16, zeros 1 84 8 8] = 3"
proof -
  have ev: "even (32::nat)" "even (64::nat)" "even (128::nat)" "even (256::nat)"
    by simp_all
  have d: "3 \<le> length [1, 2, 2 :: nat]" by simp
  from YOLO_init_stride [OF ev d, of 3 16 80]
  have m: "YOLO_init [3, 16, 32, 64, 128, 256] [1, 2, 2] 80 =
      Inr (projr (yolo_v8_n 80))"
    by (auto simp add: yolo_v8_n_def)
  have f: "YOLO_forward (projr (yolo_v8_n 80)) (zeros 1 3 256 256) =
      Inr [zeros 1 (4 + 80) 32 32, zeros 1 (4 + 80) 16 16, zeros 1 (4 + 80) 8 8]"
    by (rule YOLO_forward_256 [OF ev m])
  let ?Q = "QAT_init (projr (yolo_v8_n 80))" and ?X = "zeros 1 3 256 256"
  have q: "quant ?Q = QuantStub" "de_quant ?Q = DeQuantStub" "model ?Q = projr (yolo_v8_n 80)"
    by (simp_all add: QAT_init_def)
  have "QAT_forward ?Q ?X =
     bind_r (QuantStub_forward (quant ?Q) ?X) (\<lambda>xq.
     bind_r (YOLO_forward (model ?Q) xq) (\<lambda>outs.
       Inr (map (DeQuantStub_forward (de_quant ?Q)) outs)))"
    by (rule QAT_forward_composition [THEN conjunct1])
  also have "\<dots> = Inr (map (DeQuantStub_forward DeQuantStub)
      [zeros 1 (4 + 80) 32 32, zeros 1 (4 + 80) 16 16, zeros 1 (4 + 80) 8 8])"
    by (simp only: q QuantStub_forward.simps bind_r_simps f)
  also have "\<dots> = Inr [zeros 1 84 32 32, zeros 1 84 16 16, zeros 1 84 8 8]"
    by simp
  finally have r: "QAT_forward ?Q ?X = Inr [zeros 1 84 32 32, zeros 1 84 16 16, zeros 1 84 8 8]" .
  from QAT_forward_composition [THEN conjunct2, rule_format, OF r]
  have "length [zeros 1 84 32 32, zeros 1 84 16 16, zeros 1 84 8 8] = 3"
    by (rule conjunct1)
  with r show ?thesis by (rule conjI)
qed

text \<open>
  Claim C9. Each of the six variant configurations with 80 classes is constructed
  without an error, the forward pass of the construction included; on that pass the
  backbone and the pyramid emit the configured widths \<open>width[3]\<close>, \<open>width[4]\<close>,
  \<open>width[5]\<close>, and the head emits \<open>num_classes + 4\<close> channels at each scale. A
  convolution that returns was given exactly its input channel count and emits its
  output channel count; one that is given another count raises \<open>ShapeError\<close>.
\<close>

theorem variants_build_clean:
  "builds_clean [3, 16, 32, 64, 128, 256] 80 (yolo_v8_n 80) \<and>
   builds_clean [3, 24, 48, 96, 192, 384] 80 (yolo_v8_t 80) \<and>
   builds_clean [3, 32, 64, 128, 256, 512] 80 (yolo_v8_s 80) \<and>
   builds_clean [3, 48, 96, 192, 384, 576] 80 (yolo_v8_m 80) \<and>
   builds_clean [3, 64, 128, 256, 512, 512] 80 (yolo_v8_l 80) \<and>
   builds_clean [3, 80, 160, 320, 640, 640] 80 (yolo_v8_x 80) \<and>
   (Conv2d_forward c x = Inr y \<longrightarrow>
      t_chans x = in_channels c \<and> t_chans y = out_channels c)"
  unfolding yolo_v8_n_def yolo_v8_t_def yolo_v8_s_def yolo_v8_m_def yolo_v8_l_def
    yolo_v8_x_def
  by (intro conjI impI builds_clean_256 Conv2d_forward_channels [THEN conjunct1]
      Conv2d_forward_channels [THEN conjunct2]) simp_all

text \<open>
  Claim C9 on the last convolution of the box branch of scale 0, and on the smallest
  variant.
\<close>

theorem variants_build_clean_witness:
  "Conv2d_forward (Conv2d_init 64 4 1) (zeros 1 64 32 32) = Inr (zeros 1 4 32 32) \<and>
   t_chans (zeros 1 64 32 32) = in_channels (Conv2d_init 64 4 1) \<and>
   t_chans (zeros 1 4 32 32) = out_channels (Conv2d_init 64 4 1) \<and>
   builds_clean [3, 16, 32, 64, 128, 256] 80 (yolo_v8_n 80)"
proof -
  have a: "Conv2d_forward (Conv2d_init 64 4 1) (zeros 1 64 32 32) = Inr (zeros 1 4 32 32)"
    by (simp add: Conv2d_forward_def Conv2d_init_def zeros_def window_out_def is_quantized_def)
  from variants_build_clean [of "Conv2d_init 64 4 1" "zeros 1 64 32 32" "zeros 1 4 32 32"] a
  show ?thesis by blast
qed

text \<open>
  Claim C10. In every pyramid that is constructed, the four groups h1, h2, h4 and h6
  are all built with the repetition count \<open>depth[0]\<close>; the later entries of \<open>depth\<close> are
  not read: any list with the same first entry gives the same pyramid.
\<close>

theorem DarkFPN_depths:
  assumes "DarkFPN_init width depth = Inr m"
  shows "h1 m = CSP_init (width ! 4 + width ! 5) (width ! 4) (depth ! 0) False \<and>
    h2 m = CSP_init (width ! 3 + width ! 4) (width ! 3) (depth ! 0) False \<and>
    h4 m = CSP_init (width ! 3 + width ! 4) (width ! 4) (depth ! 0) False \<and>
    h6 m = CSP_init (width ! 4 + width ! 5) (width ! 5) (depth ! 0) False \<and>
    map (\<lambda>c. length (res_m c)) [h1 m, h2 m, h4 m, h6 m] = replicate 4 (depth ! 0) \<and>
    DarkFPN_init width (depth ! 0 # rest) = Inr m"
proof -
  from assms have l: "6 \<le> length width" "depth \<noteq> []"
    by (auto simp add: DarkFPN_init_def split: if_splits)
  with assms have m: "m = \<lparr>up = \<lparr>scale_factor = 2\<rparr>,
         h1 = CSP_init (width ! 4 + width ! 5) (width ! 4) (depth ! 0) False,
         h2 = CSP_init (width ! 3 + width ! 4) (width ! 3) (depth ! 0) False,
         h3 = Conv_init (width ! 3) (width ! 3) 3 2,
         h4 = CSP_init (width ! 3 + width ! 4) (width ! 4) (depth ! 0) False,
         h5 = Conv_init (width ! 4) (width ! 4) 3 2,
         h6 = CSP_init (width ! 4 + width ! 5) (width ! 5) (depth ! 0) False\<rparr>"
    by (auto simp add: DarkFPN_init_def split: if_splits)
  have s: "h1 m = CSP_init (width ! 4 + width ! 5) (width ! 4) (depth ! 0) False"
    "h2 m = CSP_init (width ! 3 + width ! 4) (width ! 3) (depth ! 0) False"
    "h4 m = CSP_init (width ! 3 + width ! 4) (width ! 4) (depth ! 0) False"
    "h6 m = CSP_init (width ! 4 + width ! 5) (width ! 5) (depth ! 0) False"
    by (simp_all add: m)
  have t: "DarkFPN_init width (depth ! 0 # rest) = Inr m"
    using l by (simp add: DarkFPN_init_def m)
  show ?thesis
    unfolding s using t by (simp add: res_m_CSP_init replicate_4)
qed

text \<open>
  Claim C10 on the configuration of variant m: four groups of depth 2, and the same
  pyramid from the depth list \<open>[2]\<close>.
\<close>

theorem DarkFPN_depths_witness:
  "DarkFPN_init [3, 48, 96, 192, 384, 576] [2, 4, 4] =
     Inr (projr (DarkFPN_init [3, 48, 96, 192, 384, 576] [2, 4, 4])) \<and>
   map (\<lambda>c. length (res_m c))
     [h1 (projr (DarkFPN_init [3, 48, 96, 192, 384, 576] [2, 4, 4])),
      h2 (projr (DarkFPN_init [3, 48, 96, 192, 384, 576] [2, 4, 4])),
      h4 (projr (DarkFPN_init [3, 48, 96, 192, 384, 576] [2, 4, 4])),
      h6 (projr (DarkFPN_init [3, 48, 96, 192, 384, 576] [2, 4, 4]))] = [2, 2, 2, 2] \<and>
   DarkFPN_init [3, 48, 96, 192, 384, 576] [2] =
     Inr (projr (DarkFPN_init [3, 48, 96, 192, 384, 576] [2, 4, 4]))"
proof -
  have a: "DarkFPN_init [3, 48, 96, 192, 384, 576] [2, 4, 4] =
     Inr (projr (DarkFPN_init [3, 48, 96, 192, 384, 576] [2, 4, 4]))"
    by (simp add: DarkFPN_init_def)
  let ?M = "projr (DarkFPN_init [3, 48, 96, 192, 384, 576] [2, 4, 4])"
  from DarkFPN_depths [OF a, of "[]"]
  have "map (\<lambda>c. length (res_m c)) [h1 ?M, h2 ?M, h4 ?M, h6 ?M] = replicate 4 ([2, 4, 4] ! 0) \<and>
      DarkFPN_init [3, 48, 96, 192, 384, 576] ([2, 4, 4] ! 0 # []) = Inr ?M"
    by (elim conjE) (intro conjI, assumption+)
  then have "map (\<lambda>c. length (res_m c)) [h1 ?M, h2 ?M, h4 ?M, h6 ?M] = [2, 2, 2, 2] \<and>
      DarkFPN_init [3, 48, 96, 192, 384, 576] [2] = Inr ?M"
    by (simp only: replicate_4 nth_Cons_0)
  with a show ?thesis by (elim conjE) (intro conjI, assumption+)
qed

end
